theory Spec2Isabelle
  imports Complex_Main
begin

section \<open>Text and number formatting\<close>

text \<open>
  A Python \<open>str\<close> is a sequence of Unicode code points, so text that may leave ASCII
  (segment text, paths, the labels written to the transcript) is a list of code points.
  Text that the program builds from digits and punctuation only is a HOL \<open>string\<close>,
  turned into code points by \<open>ascii\<close>.
\<close>

type_synonym ustring = "nat list"

definition ascii :: "string \<Rightarrow> ustring" where
  "ascii s = map of_char s"

text \<open>\<open>str.isspace\<close>: the code points that \<open>str.strip()\<close> removes.\<close>

definition isspace :: "nat \<Rightarrow> bool" where
  "isspace c = (c \<in> set [9, 10, 11, 12, 13, 28, 29, 30, 31, 32, 133, 160, 5760,
     8192, 8193, 8194, 8195, 8196, 8197, 8198, 8199, 8200, 8201, 8202,
     8232, 8233, 8239, 8287, 12288])"

definition str_strip :: "ustring \<Rightarrow> ustring" where
  "str_strip s = rev (dropWhile isspace (rev (dropWhile isspace s)))"

definition str_endswith :: "ustring \<Rightarrow> ustring \<Rightarrow> bool" where
  "str_endswith s suffix =
     (length suffix \<le> length s \<and> drop (length s - length suffix) s = suffix)"

fun str_startswith :: "ustring \<Rightarrow> ustring \<Rightarrow> bool" where
  "str_startswith s [] = True"
| "str_startswith [] (p # ps) = False"
| "str_startswith (c # cs) (p # ps) = (c = p \<and> str_startswith cs ps)"

text \<open>\<open>needle in s\<close> on strings.\<close>

fun str_contains :: "ustring \<Rightarrow> ustring \<Rightarrow> bool" where
  "str_contains needle [] = (needle = [])"
| "str_contains needle (c # cs) =
     (str_startswith (c # cs) needle \<or> str_contains needle cs)"

text \<open>The lines of a text: the pieces that end at a line feed (code point 10).\<close>

fun lines_of :: "ustring \<Rightarrow> ustring list" where
  "lines_of [] = []"
| "lines_of (c # cs) =
     (if c = 10 then [] # lines_of cs
      else (case lines_of cs of [] \<Rightarrow> [[c]] | l # ls \<Rightarrow> (c # l) # ls))"

definition digit_char :: "nat \<Rightarrow> char" where
  "digit_char d = ''0123456789'' ! d"

definition is_digit :: "char \<Rightarrow> bool" where
  "is_digit c = (c \<in> set ''0123456789'')"

text \<open>\<open>str(n)\<close> for a natural number.\<close>

fun str_of_nat :: "nat \<Rightarrow> string" where
  "str_of_nat n =
     (if n < 10 then [digit_char n] else str_of_nat (n div 10) @ [digit_char (n mod 10)])"

definition zero_pad :: "nat \<Rightarrow> string \<Rightarrow> string" where
  "zero_pad w s = replicate (w - length s) (CHR ''0'') @ s"

text \<open>
  The format specification \<open>0<w>d\<close> of an f-string (\<open>{x:02d}\<close>, \<open>{x:03d}\<close>): the
  decimal digits padded with zeros to at least \<open>w\<close> characters, the sign counted in the
  width and placed before the padding.
\<close>

definition format_d :: "nat \<Rightarrow> int \<Rightarrow> string" where
  "format_d w x =
     (if x < 0 then CHR ''-'' # zero_pad (w - 1) (str_of_nat (nat (- x)))
      else zero_pad w (str_of_nat (nat x)))"

text \<open>
  A finite Python float is a rational number; the model takes its exact value.
  \<open>int(x)\<close> truncates towards zero.
\<close>

definition py_int :: "rat \<Rightarrow> int" where
  "py_int x = (if 0 \<le> x then \<lfloor>x\<rfloor> else \<lceil>x\<rceil>)"

text \<open>\<open>divmod(a, b)\<close> on integers: floor division and its remainder.\<close>

definition divmod :: "int \<Rightarrow> int \<Rightarrow> int \<times> int" where
  "divmod a b = (a div b, a mod b)"

definition round_half_even :: "rat \<Rightarrow> int" where
  "round_half_even x =
     (let f = \<lfloor>x\<rfloor>; r = x - of_int f
      in if r < 1 / 2 then f else if 1 / 2 < r then f + 1
         else if even f then f else f + 1)"

text \<open>
  The format specification \<open>.<k>f\<close> (\<open>{x:.2f}\<close>, \<open>{x:.1f}\<close>): the exact value of the
  float rounded to \<open>k\<close> decimals, ties to even, printed with exactly \<open>k\<close> decimals.
\<close>

definition format_f :: "nat \<Rightarrow> rat \<Rightarrow> string" where
  "format_f k x =
     (let n = nat (round_half_even (\<bar>x\<bar> * 10 ^ k))
      in (if x < 0 then ''-'' else '''') @ str_of_nat (n div 10 ^ k) @
         (if k = 0 then '''' else CHR ''.'' # zero_pad k (str_of_nat (n mod 10 ^ k))))"

subsection \<open>\<open>format_srt_time\<close> (lines 50 to 62)\<close>

text \<open>
  The second \<open>divmod\<close> rebinds \<open>seconds\<close> to the integer remainder, so the following
  line subtracts an integer from itself (\<open>int\<close> of an integer is the integer).
\<close>

definition format_srt_time :: "rat \<Rightarrow> string" where
  "format_srt_time seconds =
     (let (hours, remainder) = divmod (py_int seconds) 3600;
          (minutes, seconds) = divmod remainder 60;
          milliseconds = (seconds - seconds) * 1000
      in format_d 2 hours @ '':'' @ format_d 2 minutes @ '':'' @ format_d 2 seconds @
         '','' @ format_d 3 milliseconds)"

text \<open>The shape \<open>HH:MM:SS,mmm\<close>: digits only, at least two for the hours.\<close>

definition srt_time_form :: "string \<Rightarrow> bool" where
  "srt_time_form t =
     (case rev t of
        m3 # m2 # m1 # comma # s2 # s1 # colon2 # n2 # n1 # colon1 # hs \<Rightarrow>
          list_all is_digit [m1, m2, m3, s1, s2, n1, n2] \<and> comma = CHR '','' \<and>
          colon2 = CHR '':'' \<and> colon1 = CHR '':'' \<and> 2 \<le> length hs \<and> list_all is_digit hs
      | _ \<Rightarrow> False)"

section \<open>Data model\<close>

datatype device = Cpu | Cuda

definition device_name :: "device \<Rightarrow> string" where
  "device_name d = (case d of Cpu \<Rightarrow> ''cpu'' | Cuda \<Rightarrow> ''cuda'')"

text \<open>A segment and the metadata of a run, as the inference library returns them.\<close>

record segment =
  seg_start :: rat
  seg_end :: rat
  seg_text :: ustring

record transcription_info =
  language :: ustring
  language_probability :: rat
  duration :: rat

text \<open>An exception: its class and \<open>str(e)\<close>.\<close>

datatype exn =
    RuntimeError ustring
  | IOError ustring
  | KeyError ustring
  | AttributeError ustring
  | OtherError ustring

text \<open>A loaded model: what it was loaded from (a path or a model size) and on which device.\<close>

datatype model = Model (loaded_from: ustring) (loaded_on: device)

datatype verify = Verify_default | Verify_certifi | Verify_off

record session =
  verify :: verify
  session_closed :: bool

text \<open>
  The fixed texts of the user interface are named by what they say; the line is the one
  of the source that holds the literal.
\<close>

datatype status_text =
    Ready                        \<comment> \<open>296, the initial status\<close>
  | File_selected ustring        \<comment> \<open>319\<close>
  | Loading_model                \<comment> \<open>493\<close>
  | Downloading_model ustring    \<comment> \<open>497\<close>
  | Cuda_fallback_status         \<comment> \<open>517, 560\<close>
  | Analyzing_audio              \<comment> \<open>580\<close>
  | Processing_results           \<comment> \<open>654\<close>
  | Transcription_failed         \<comment> \<open>681\<close>
  | Fatal_error_status           \<comment> \<open>687\<close>
  | Done_saved                   \<comment> \<open>748\<close>
  | Save_failed_status           \<comment> \<open>755\<close>

datatype notice =
    Gpu_unavailable              \<comment> \<open>515, 558: the fallback notification\<close>
  | Transcription_error exn      \<comment> \<open>680\<close>
  | Fatal_error exn              \<comment> \<open>686\<close>
  | Completed "ustring list"     \<comment> \<open>743 to 747: the files saved\<close>
  | Save_failed exn              \<comment> \<open>754\<close>

datatype panel_line =
    Detected_language ustring rat   \<comment> \<open>618, 663\<close>
  | Audio_duration rat              \<comment> \<open>623, 668\<close>

datatype icon = Info | Warning | Error

text \<open>The messages of the queue: \<open>(message_type, message)\<close>.\<close>

datatype msg =
    Status status_text
  | Progress rat
  | Message icon notice
  | Clear_result
  | Append_result panel_line
  | Update_acceleration_button

datatype dialog_kind = Showinfo | Showwarning | Showerror

datatype dialog_text =
    Please_select_file           \<comment> \<open>449\<close>
  | Please_select_format         \<comment> \<open>455\<close>
  | Model_path_not_saved         \<comment> \<open>338\<close>
  | Device_setting_not_saved     \<comment> \<open>360\<close>
  | Notice notice

datatype widget_state = NORMAL | DISABLED

datatype accel_face = Accelerate_face | Gpu_mode_face

datatype label_text = Ready_label | Preparing_label

datatype level = INFO | WARNING | ERROR

text \<open>
  The application object together with what it acts on: the widgets, the dialogs shown,
  the log (level and source line of each logging call), the worker threads started, the
  transcript files written, the configuration file, and the model constructor calls made.
\<close>

record app =
  filename :: "ustring option"
  txt_var :: bool
  srt_var :: bool
  using_cpu :: bool
  config :: "string \<rightharpoonup> ustring"
  model_cache :: "ustring \<rightharpoonup> model"
  requests_session :: "session option"
  message_queue :: "msg list"
  result_frame_initialized :: bool
  transcribe_btn :: widget_state
  file_btn :: widget_state
  model_size_state :: widget_state
  model_size_value :: ustring
  accelerate_btn :: widget_state
  accelerate_btn_face :: accel_face
  browse_btn :: widget_state
  language_state :: widget_state
  language_value :: ustring
  model_path :: ustring
  progress_var :: rat
  progress_label :: label_text
  status_var :: status_text
  result_text :: "panel_line list"
  dialogs :: "(dialog_kind \<times> dialog_text) list"
  logged :: "(level \<times> nat) list"
  threads_started :: nat
  files :: "ustring \<rightharpoonup> ustring"
  config_file :: "(string \<rightharpoonup> ustring) option"
  load_calls :: "(ustring \<times> device) list"
  polls_scheduled :: nat

text \<open>
  What the collaborators answer: the operating system, the file system and the inference
  library. \<open>load_model n source device\<close> is the outcome of the \<open>n\<close>-th call of the model
  constructor (\<open>None\<close>: it returns a model); \<open>progress_callback_support\<close> is what
  \<open>inspect.signature\<close> shows (\<open>None\<close>: it raises); a transcription passes the values of
  \<open>callbacks\<close> to a progress callback when it is given one.
\<close>

datatype transcribe_result =
    Transcribe_error "rat list" exn
  | Transcribed "rat list" "segment list" transcription_info

record env =
  sep :: nat
  seps :: "nat list"
  app_dir :: ustring
  path_exists :: "ustring \<Rightarrow> bool"
  base_name :: "ustring \<Rightarrow> ustring"
  load_model :: "nat \<Rightarrow> ustring \<Rightarrow> device \<Rightarrow> exn option"
  certifi_available :: bool
  progress_callback_support :: "model \<Rightarrow> bool option"
  transcribe :: "model \<Rightarrow> ustring \<Rightarrow> ustring option \<Rightarrow> transcribe_result"
  makedirs_error :: "ustring \<Rightarrow> exn option"
  open_error :: "ustring \<Rightarrow> exn option"
  config_writable :: bool

section \<open>The user-interface thread\<close>

definition send_message :: "msg \<Rightarrow> app \<Rightarrow> app" where
  "send_message m s = s\<lparr>message_queue := message_queue s @ [m]\<rparr>"

definition logger :: "level \<Rightarrow> nat \<Rightarrow> app \<Rightarrow> app" where
  "logger lv line s = s\<lparr>logged := logged s @ [(lv, line)]\<rparr>"

definition messagebox :: "dialog_kind \<Rightarrow> dialog_text \<Rightarrow> app \<Rightarrow> app" where
  "messagebox k t s = s\<lparr>dialogs := dialogs s @ [(k, t)]\<rparr>"

text \<open>
  \<open>os.path.join\<close> and the \<open>/\<close> of \<open>pathlib\<close>, for a relative second component: the
  separator is added unless the first component is empty or ends in one.
\<close>

definition path_join :: "env \<Rightarrow> ustring \<Rightarrow> ustring \<Rightarrow> ustring" where
  "path_join e a b =
     (if a = [] then b else if last a \<in> set (seps e) then a @ b else a @ [sep e] @ b)"

text \<open>\<open>save_config\<close> (lines 153 to 161): the file is overwritten with the whole record.\<close>

definition save_config :: "env \<Rightarrow> app \<Rightarrow> bool \<times> app" where
  "save_config e s =
     (if config_writable e then (True, s\<lparr>config_file := Some (config s)\<rparr>)
      else (False, logger ERROR 160 s))"

text \<open>\<open>select_model_dir\<close> (lines 322 to 344); \<open>dirname\<close> is what the directory dialog returns.\<close>

definition select_model_dir :: "env \<Rightarrow> ustring \<Rightarrow> app \<Rightarrow> app" where
  "select_model_dir e dirname s =
     (let dirname = (if str_endswith dirname (ascii ''models'')
                     then path_join e dirname (ascii ''base'') else dirname)
      in if dirname \<noteq> [] \<and> path_exists e dirname then
           (let s1 = s\<lparr>model_path := dirname\<rparr>;
                s2 = s1\<lparr>model_size_state := DISABLED\<rparr>;
                s3 = logger INFO 332 s2;
                s4 = s3\<lparr>config := (config s3)(''model.path'' \<mapsto> dirname)\<rparr>;
                (saved, s5) = save_config e s4
            in if saved then s5
               else messagebox Showerror Model_path_not_saved (logger ERROR 337 s5))
         else logger INFO 344 (s\<lparr>model_size_state := NORMAL\<rparr>))"

text \<open>\<open>toggle_acceleration\<close> (lines 346 to 363).\<close>

definition toggle_acceleration :: "env \<Rightarrow> app \<Rightarrow> app" where
  "toggle_acceleration e s =
     (let s1 = s\<lparr>using_cpu := \<not> using_cpu s\<rparr>;
          s2 = (if using_cpu s1 then
                  (let t1 = s1\<lparr>accelerate_btn_face := Accelerate_face\<rparr>;
                       t2 = logger INFO 351 t1
                   in t2\<lparr>config := (config t2)(''model.device'' \<mapsto> ascii ''cpu'')\<rparr>)
                else
                  (let t1 = s1\<lparr>accelerate_btn_face := Gpu_mode_face\<rparr>;
                       t2 = logger INFO 355 t1
                   in t2\<lparr>config := (config t2)(''model.device'' \<mapsto> ascii ''cuda'')\<rparr>));
          (saved, s3) = save_config e s2
      in if saved then s3
         else messagebox Showerror Device_setting_not_saved (logger ERROR 359 s3))"

text \<open>\<open>create_result_frame\<close> (lines 785 to 791): a new text widget is empty.\<close>

definition create_result_frame :: "app \<Rightarrow> app" where
  "create_result_frame s =
     (if \<not> result_frame_initialized s
      then s\<lparr>result_text := [], result_frame_initialized := True\<rparr>
      else s\<lparr>result_text := []\<rparr>)"

text \<open>
  \<open>start_transcription\<close> (lines 446 to 478). \<open>filename\<close> is \<open>None\<close> as long as the
  attribute does not exist. The worker thread started at the end runs
  \<open>run_transcription\<close>.
\<close>

definition start_transcription :: "app \<Rightarrow> app" where
  "start_transcription s =
     (if filename s = None then
        logger WARNING 450 (messagebox Showwarning Please_select_file s)
      else if \<not> txt_var s \<and> \<not> srt_var s then
        logger WARNING 456 (messagebox Showwarning Please_select_format s)
      else
        (let s1 = logger INFO 460 s;
             s2 = s1\<lparr>transcribe_btn := DISABLED, file_btn := DISABLED,
                     model_size_state := DISABLED, accelerate_btn := DISABLED,
                     browse_btn := DISABLED, language_state := DISABLED\<rparr>;
             s3 = create_result_frame s2;
             s4 = s3\<lparr>progress_var := 0, progress_label := Preparing_label\<rparr>
         in s4\<lparr>threads_started := threads_started s4 + 1\<rparr>))"

text \<open>
  \<open>process_messages\<close> (lines 761 to 780): one tick of the timer applies every pending
  message in queue order and schedules the next tick.
\<close>

definition apply_message :: "env \<Rightarrow> msg \<Rightarrow> app \<Rightarrow> app" where
  "apply_message e m s =
     (case m of
        Status t \<Rightarrow> s\<lparr>status_var := t\<rparr>
      | Progress p \<Rightarrow> s\<lparr>progress_var := p\<rparr>
      | Message i n \<Rightarrow>
          (if i = Info then messagebox Showinfo (Notice n) s
           else messagebox Showerror (Notice n) s)
      | Clear_result \<Rightarrow> (if result_frame_initialized s then s\<lparr>result_text := []\<rparr> else s)
      | Append_result l \<Rightarrow>
          (if result_frame_initialized s then s\<lparr>result_text := result_text s @ [l]\<rparr> else s)
      | Update_acceleration_button \<Rightarrow> toggle_acceleration e s)"

definition process_messages :: "env \<Rightarrow> app \<Rightarrow> app" where
  "process_messages e s =
     (let s1 = fold (apply_message e) (message_queue s) (s\<lparr>message_queue := []\<rparr>)
      in s1\<lparr>polls_scheduled := polls_scheduled s1 + 1\<rparr>)"

section \<open>The result exporter\<close>

text \<open>The labels of the transcript header (lines 719 and 720), as code points.\<close>

definition language_label :: ustring where
  "language_label = [26816, 27979, 35821, 35328, 58, 32]"

definition duration_label :: ustring where
  "duration_label = [38899, 39057, 26102, 38271, 58, 32]"

definition seconds_label :: ustring where
  "seconds_label = [31186]"

text \<open>One line of the transcript (line 723), without its line feed.\<close>

definition txt_line :: "segment \<Rightarrow> ustring" where
  "txt_line seg =
     ascii ''['' @ ascii (format_f 2 (seg_start seg)) @ ascii ''s -> '' @
     ascii (format_f 2 (seg_end seg)) @ ascii ''s] '' @ seg_text seg"

text \<open>What lines 718 to 723 write to the transcript file.\<close>

definition txt_content :: "transcription_info \<Rightarrow> segment list \<Rightarrow> ustring" where
  "txt_content info segments_list =
     (if language info \<noteq> [] then language_label @ language info @ [10] else []) @
     (duration_label @ ascii (format_f 1 (duration info)) @ seconds_label @ [10, 10]) @
     concat (map (\<lambda>seg. txt_line seg @ [10]) segments_list)"

text \<open>One subtitle block (lines 733 to 737).\<close>

definition srt_block :: "nat \<Rightarrow> segment \<Rightarrow> ustring" where
  "srt_block i seg =
     (ascii (str_of_nat i) @ [10]) @
     (ascii (format_srt_time (seg_start seg)) @ ascii '' --> '' @
      ascii (format_srt_time (seg_end seg)) @ [10]) @
     (str_strip (seg_text seg) @ [10, 10])"

text \<open>The loop of line 732: \<open>enumerate(segments_list, 1)\<close>.\<close>

fun srt_blocks :: "nat \<Rightarrow> segment list \<Rightarrow> ustring" where
  "srt_blocks i [] = []"
| "srt_blocks i (seg # segs) = srt_block i seg @ srt_blocks (Suc i) segs"

definition srt_content :: "segment list \<Rightarrow> ustring" where
  "srt_content segments_list = srt_blocks 1 segments_list"

text \<open>
  Opening a file for writing and writing the whole text (the \<open>with\<close> blocks of lines 717
  and 731); \<open>open\<close> may raise.
\<close>

definition write_file :: "env \<Rightarrow> ustring \<Rightarrow> ustring \<Rightarrow> app \<Rightarrow> exn option \<times> app" where
  "write_file e path content s =
     (case open_error e path of
        Some x \<Rightarrow> (Some x, s)
      | None \<Rightarrow> (None, s\<lparr>files := (files s)(path \<mapsto> content)\<rparr>))"

text \<open>The body of the \<open>try\<close> of \<open>save_transcription_results\<close> (lines 711 to 750).\<close>

definition save_body ::
  "env \<Rightarrow> transcription_info \<Rightarrow> segment list \<Rightarrow> ustring \<Rightarrow> app \<Rightarrow> exn option \<times> app" where
  "save_body e info segments_list output_dir s =
     (case filename s of
        None \<Rightarrow> (Some (AttributeError (ascii ''filename'')), s)
      | Some name \<Rightarrow>
          (let txt_file = path_join e output_dir (base_name e name @ ascii ''_transcript.txt'');
               srt_file = path_join e output_dir (base_name e name @ ascii ''.srt'');
               (r1, s1) = (if txt_var s then
                             (case write_file e txt_file (txt_content info segments_list) s of
                                (Some x, t) \<Rightarrow> (Some x, t)
                              | (None, t) \<Rightarrow> (None, logger INFO 726 t))
                           else (None, s))
           in case r1 of
                Some x \<Rightarrow> (Some x, s1)
              | None \<Rightarrow>
                  (let (r2, s2) = (if srt_var s1 then
                                     (case write_file e srt_file (srt_content segments_list) s1 of
                                        (Some x, t) \<Rightarrow> (Some x, t)
                                      | (None, t) \<Rightarrow> (None, logger INFO 740 t))
                                   else (None, s1))
                   in case r2 of
                        Some x \<Rightarrow> (Some x, s2)
                      | None \<Rightarrow>
                          (let saved_files = (if txt_var s then [txt_file] else []) @
                                             (if srt_var s1 then [srt_file] else []);
                               s3 = send_message (Message Info (Completed saved_files)) s2;
                               s4 = send_message (Status Done_saved) s3;
                               s5 = send_message (Progress 100) s4
                           in (None, logger INFO 750 s5)))))"

definition is_IOError :: "exn \<Rightarrow> bool" where
  "is_IOError x = (case x of IOError _ \<Rightarrow> True | _ \<Rightarrow> False)"

text \<open>\<open>save_transcription_results\<close> (lines 708 to 756): the handler re-raises.\<close>

definition save_transcription_results ::
  "env \<Rightarrow> transcription_info \<Rightarrow> segment list \<Rightarrow> ustring \<Rightarrow> app \<Rightarrow> exn option \<times> app" where
  "save_transcription_results e info segments_list output_dir s =
     (case save_body e info segments_list output_dir s of
        (None, s1) \<Rightarrow> (None, s1)
      | (Some x, s1) \<Rightarrow>
          (if is_IOError x then
             (let s2 = logger ERROR 753 s1;
                  s3 = send_message (Message Error (Save_failed x)) s2
              in (Some x, send_message (Status Save_failed_status) s3))
           else (Some x, s1)))"

section \<open>The transcription worker\<close>

text \<open>The model constructor: every call is recorded, and the environment decides it.\<close>

definition WhisperModel :: "env \<Rightarrow> ustring \<Rightarrow> device \<Rightarrow> app \<Rightarrow> (exn + model) \<times> app" where
  "WhisperModel e source dev s =
     (let s1 = s\<lparr>load_calls := load_calls s @ [(source, dev)]\<rparr>
      in case load_model e (length (load_calls s)) source dev of
           Some x \<Rightarrow> (Inl x, s1)
         | None \<Rightarrow> (Inr (Model source dev), s1))"

definition cuda_marker :: ustring where
  "cuda_marker = ascii ''CUDA driver version is insufficient''"

definition model_key :: "ustring \<Rightarrow> device \<Rightarrow> ustring \<Rightarrow> ustring" where
  "model_key model_size dev path =
     model_size @ ascii ''_'' @ ascii (device_name dev) @ ascii ''_'' @ path"

text \<open>
  The \<open>try\<close> around the constructor with its \<open>except RuntimeError\<close>, which the source
  has twice: lines 506 to 527 for a local path and lines 544 to 575 for a download. The
  two differ in the source given to the constructor and in the lines of their logging
  calls (\<open>ok_line\<close>, \<open>warn_line\<close>, \<open>cpu_line\<close>). The result is the key under which the
  model is cached.
\<close>

definition load_or_fallback ::
  "env \<Rightarrow> ustring \<Rightarrow> device \<Rightarrow> ustring \<Rightarrow> ustring \<Rightarrow> nat \<Rightarrow> nat \<Rightarrow> nat \<Rightarrow> app \<Rightarrow>
   (exn + ustring) \<times> app" where
  "load_or_fallback e source dev key cpu_key ok_line warn_line cpu_line s =
     (case WhisperModel e source dev s of
        (Inr m, s1) \<Rightarrow>
          (Inr key, logger INFO ok_line (s1\<lparr>model_cache := (model_cache s1)(key \<mapsto> m)\<rparr>))
      | (Inl x, s1) \<Rightarrow>
          (case x of
             RuntimeError text \<Rightarrow>
               (if str_contains cuda_marker text then
                  (let s2 = logger WARNING warn_line s1;
                       s3 = send_message (Message Warning Gpu_unavailable) s2;
                       s4 = send_message (Status Cuda_fallback_status) s3;
                       s5 = s4\<lparr>using_cpu := True\<rparr>;
                       s6 = send_message Update_acceleration_button s5
                   in case WhisperModel e source Cpu s6 of
                        (Inr m, s7) \<Rightarrow>
                          (Inr cpu_key,
                           logger INFO cpu_line
                             (s7\<lparr>model_cache := (model_cache s7)(cpu_key \<mapsto> m)\<rparr>))
                      | (Inl y, s7) \<Rightarrow> (Inl y, s7))
                else (Inl x, s1))
           | _ \<Rightarrow> (Inl x, s1)))"

text \<open>The lazily created network session (lines 534 to 542).\<close>

definition ensure_session :: "env \<Rightarrow> app \<Rightarrow> app" where
  "ensure_session e s =
     (case requests_session s of
        Some _ \<Rightarrow> s
      | None \<Rightarrow>
          (if certifi_available e then
             logger INFO 539
               (s\<lparr>requests_session := Some \<lparr>verify = Verify_certifi, session_closed = False\<rparr>\<rparr>)
           else
             logger WARNING 542
               (s\<lparr>requests_session := Some \<lparr>verify = Verify_off, session_closed = False\<rparr>\<rparr>)))"

text \<open>\<open>get_model_dir\<close> (lines 92 and 93).\<close>

definition model_dir :: "env \<Rightarrow> ustring" where
  "model_dir e = path_join e (app_dir e) (ascii ''models'')"

text \<open>Lines 501 to 577: the cache lookup, the load when the key is missing, the model.\<close>

definition resolve_model ::
  "env \<Rightarrow> ustring \<Rightarrow> device \<Rightarrow> ustring \<Rightarrow> app \<Rightarrow> (exn + model) \<times> app" where
  "resolve_model e model_size dev path s =
     (let key = model_key model_size dev path;
          cpu_key = model_key model_size Cpu path;
          (r, s1) =
            (if model_cache s key = None then
               (if path \<noteq> [] then
                  load_or_fallback e path dev key cpu_key 510 514 524 s
                else
                  (case makedirs_error e (model_dir e) of
                     Some x \<Rightarrow> (Inl x, s)
                   | None \<Rightarrow>
                       load_or_fallback e model_size dev key cpu_key 553 557 572
                         (ensure_session e s)))
             else (Inr key, s))
      in case r of
           Inl x \<Rightarrow> (Inl x, s1)
         | Inr k \<Rightarrow>
             (case model_cache s1 k of
                None \<Rightarrow> (Inl (KeyError k), s1)
              | Some m \<Rightarrow> (Inr m, s1)))"

text \<open>
  The loop of lines 632 to 641; \<open>i\<close> counts from 1. The strings it builds are not used
  after the loop.
\<close>

fun process_segments :: "nat \<Rightarrow> nat \<Rightarrow> segment list \<Rightarrow> app \<Rightarrow> app" where
  "process_segments total_segments i [] s = s"
| "process_segments total_segments i (seg # segs) s =
     (let progress = 90 + (of_nat i / of_nat total_segments) * 10;
          s1 = send_message (Progress progress) s;
          s2 = (if i mod 10 = 0 \<or> i = total_segments then logger INFO 641 s1 else s1)
      in process_segments total_segments (Suc i) segs s2)"

text \<open>The result panel header (lines 614 to 624 and 659 to 669).\<close>

definition show_header :: "transcription_info \<Rightarrow> nat \<Rightarrow> nat \<Rightarrow> app \<Rightarrow> app" where
  "show_header info language_line duration_line s =
     (let s1 = send_message Clear_result s;
          s2 = (if language info \<noteq> [] \<and> language_probability info \<noteq> 0 then
                  logger INFO language_line
                    (send_message
                       (Append_result (Detected_language (language info) (language_probability info)))
                       s1)
                else s1);
          s3 = send_message (Append_result (Audio_duration (duration info))) s2
      in logger INFO duration_line s3)"

definition output_dir :: "env \<Rightarrow> ustring" where
  "output_dir e = path_join e (app_dir e) (ascii ''transcripts'')"

text \<open>Lines 608 to 646: the library has no progress callback.\<close>

definition results_without_callback ::
  "env \<Rightarrow> transcription_info \<Rightarrow> segment list \<Rightarrow> app \<Rightarrow> exn option \<times> app" where
  "results_without_callback e info segments_list s =
     (let total_segments = length segments_list;
          s1 = send_message (Progress 90) s;
          s2 = logger INFO 611 s1;
          s3 = show_header info 620 624 s2
      in case makedirs_error e (output_dir e) of
           Some x \<Rightarrow> (Some x, s3)
         | None \<Rightarrow>
             save_transcription_results e info segments_list (output_dir e)
               (process_segments total_segments 1 segments_list s3))"

text \<open>Lines 649 to 682: the library has a progress callback; the inner handler re-raises.\<close>

definition results_with_callback ::
  "env \<Rightarrow> transcription_info \<Rightarrow> segment list \<Rightarrow> app \<Rightarrow> exn option \<times> app" where
  "results_with_callback e info segments_list s =
     (let s1 = send_message (Status Processing_results) s;
          s2 = send_message (Progress 90) s1;
          s3 = logger INFO 656 s2;
          s4 = show_header info 665 669 s3;
          (r, s5) = (case makedirs_error e (output_dir e) of
                       Some x \<Rightarrow> (Some x, s4)
                     | None \<Rightarrow> save_transcription_results e info segments_list (output_dir e) s4)
      in case r of
           None \<Rightarrow> (None, s5)
         | Some x \<Rightarrow>
             (let s6 = logger ERROR 679 s5;
                  s7 = send_message (Message Error (Transcription_error x)) s6
              in (Some x, send_message (Status Transcription_failed) s7)))"

text \<open>\<open>update_progress\<close> (lines 782 and 783), the progress callback.\<close>

definition update_progress :: "rat \<Rightarrow> app \<Rightarrow> app" where
  "update_progress progress s = send_message (Progress (progress * 100)) s"

text \<open>Lines 579 to 682.\<close>

definition analyze :: "env \<Rightarrow> model \<Rightarrow> ustring option \<Rightarrow> app \<Rightarrow> exn option \<times> app" where
  "analyze e m lang s =
     (let s1 = send_message (Status Analyzing_audio) s;
          s2 = send_message (Progress 20) s1;
          s3 = logger INFO 582 s2;
          (supports_progress, s4) =
            (case progress_callback_support e m of
               Some b \<Rightarrow> (b, logger INFO 589 s3)
             | None \<Rightarrow> (False, logger WARNING 591 s3))
      in case filename s4 of
           None \<Rightarrow> (Some (AttributeError (ascii ''filename'')), s4)
         | Some name \<Rightarrow>
             (if supports_progress then
                (case transcribe e m name lang of
                   Transcribe_error callbacks x \<Rightarrow> (Some x, fold update_progress callbacks s4)
                 | Transcribed callbacks segments info \<Rightarrow>
                     results_with_callback e info segments (fold update_progress callbacks s4))
              else
                (case transcribe e m name lang of
                   Transcribe_error callbacks x \<Rightarrow> (Some x, s4)
                 | Transcribed callbacks segments info \<Rightarrow>
                     results_without_callback e info segments s4)))"

text \<open>The local variables of lines 483 to 489 and the key of line 502.\<close>

definition requested_device :: "app \<Rightarrow> device" where
  "requested_device s = (if using_cpu s then Cpu else Cuda)"

definition stripped_path :: "app \<Rightarrow> ustring" where
  "stripped_path s = str_strip (model_path s)"

definition language_arg :: "app \<Rightarrow> ustring option" where
  "language_arg s =
     (if language_value s \<noteq> ascii ''auto'' then Some (language_value s) else None)"

text \<open>What the constructor is given first: the local path, or else the model size.\<close>

definition model_source :: "app \<Rightarrow> ustring" where
  "model_source s = (if stripped_path s \<noteq> [] then stripped_path s else model_size_value s)"

definition run_key :: "app \<Rightarrow> ustring" where
  "run_key s = model_key (model_size_value s) (requested_device s) (stripped_path s)"

text \<open>Lines 491 to 499.\<close>

definition announce_load :: "app \<Rightarrow> app" where
  "announce_load s =
     (let s1 = (if stripped_path s \<noteq> [] then
                  logger INFO 494 (send_message (Status Loading_model) s)
                else
                  logger INFO 498
                    (send_message (Status (Downloading_model (model_size_value s))) s))
      in send_message (Progress 10) s1)"

text \<open>Lines 483 to 577: up to the model.\<close>

definition load_phase :: "env \<Rightarrow> app \<Rightarrow> (exn + model) \<times> app" where
  "load_phase e s =
     resolve_model e (model_size_value s) (requested_device s) (stripped_path s)
       (announce_load s)"

text \<open>The body of the outer \<open>try\<close> (lines 483 to 682).\<close>

definition run_try :: "env \<Rightarrow> app \<Rightarrow> exn option \<times> app" where
  "run_try e s =
     (case load_phase e s of
        (Inl x, s3) \<Rightarrow> (Some x, s3)
      | (Inr m, s3) \<Rightarrow> analyze e m (language_arg s) s3)"

text \<open>
  The \<open>finally\<close> block (lines 690 to 706). The loop of lines 704 and 705 deletes its own
  loop variable, \<open>del model\<close>, once for every value of the cache: the dictionary keeps
  all its entries.
\<close>

definition cleanup :: "app \<Rightarrow> app" where
  "cleanup s =
     (let s1 = s\<lparr>transcribe_btn := NORMAL, file_btn := NORMAL, model_size_state := NORMAL,
                  accelerate_btn := NORMAL, browse_btn := NORMAL, language_state := NORMAL\<rparr>;
          s2 = (case requests_session s1 of
                  Some session \<Rightarrow>
                    logger INFO 702
                      (s1\<lparr>requests_session := Some (session\<lparr>session_closed := True\<rparr>)\<rparr>)
                | None \<Rightarrow> s1)
      in logger INFO 706 s2)"

text \<open>
  \<open>run_transcription\<close> (lines 480 to 706): the result is the exception that ends the
  thread, or \<open>None\<close> when the function returns.
\<close>

definition run_transcription :: "env \<Rightarrow> app \<Rightarrow> exn option \<times> app" where
  "run_transcription e s =
     (case run_try e s of
        (None, s1) \<Rightarrow> (None, cleanup s1)
      | (Some x, s1) \<Rightarrow>
          (let s2 = logger ERROR 685 s1;
               s3 = send_message (Message Error (Fatal_error x)) s2
           in (Some x, cleanup (send_message (Status Fatal_error_status) s3))))"

section \<open>What the claims speak of\<close>

text \<open>The values of the progress messages of a queue, in queue order.\<close>

fun progress_values :: "msg list \<Rightarrow> rat list" where
  "progress_values [] = []"
| "progress_values (m # ms) =
     (case m of Progress p \<Rightarrow> p # progress_values ms | _ \<Rightarrow> progress_values ms)"

text \<open>The two messages that only the fallback to the CPU sends.\<close>

definition fallback_msgs :: "msg list \<Rightarrow> msg list" where
  "fallback_msgs q =
     filter (\<lambda>m. m = Message Warning Gpu_unavailable \<or> m = Update_acceleration_button) q"

text \<open>The log lines of the fallback (lines 514 and 557).\<close>

definition fallback_log :: "app \<Rightarrow> (level \<times> nat) list" where
  "fallback_log s = filter (\<lambda>x. x = (WARNING, 514) \<or> x = (WARNING, 557)) (logged s)"

text \<open>What the load of the model decides and the rest of the run leaves alone.\<close>

definition load_trace ::
  "app \<Rightarrow> (ustring \<times> device) list \<times> bool \<times> msg list \<times> (level \<times> nat) list \<times> (ustring \<rightharpoonup> model)" where
  "load_trace s =
     (load_calls s, using_cpu s, fallback_msgs (message_queue s), fallback_log s, model_cache s)"

text \<open>A load failure that the handler takes for an insufficient CUDA driver.\<close>

definition driver_insufficient :: "exn \<Rightarrow> bool" where
  "driver_insufficient x =
     (case x of RuntimeError text \<Rightarrow> str_contains cuda_marker text | _ \<Rightarrow> False)"

text \<open>
  The state of the user interface: the application state without what the worker owns
  or shares by design (the queue, the log, the constructor calls, the model cache, the
  CPU flag, the network session and the files written).
\<close>

definition ui_state :: "app \<Rightarrow> app" where
  "ui_state s =
     s\<lparr>message_queue := [], logged := [], load_calls := [], model_cache := Map.empty,
       using_cpu := False, requests_session := None, files := Map.empty\<rparr>"

text \<open>The six controls that \<open>start_transcription\<close> disables.\<close>

definition controls :: "app \<Rightarrow> widget_state list" where
  "controls s =
     [transcribe_btn s, file_btn s, model_size_state s, accelerate_btn s, browse_btn s,
      language_state s]"

definition enable_controls :: "app \<Rightarrow> app" where
  "enable_controls s =
     s\<lparr>transcribe_btn := NORMAL, file_btn := NORMAL, model_size_state := NORMAL,
       accelerate_btn := NORMAL, browse_btn := NORMAL, language_state := NORMAL\<rparr>"

text \<open>The paths of the two output files (lines 716 and 730).\<close>

definition txt_file :: "env \<Rightarrow> ustring \<Rightarrow> ustring" where
  "txt_file e name = path_join e (output_dir e) (base_name e name @ ascii ''_transcript.txt'')"

definition srt_file :: "env \<Rightarrow> ustring \<Rightarrow> ustring" where
  "srt_file e name = path_join e (output_dir e) (base_name e name @ ascii ''.srt'')"

section \<open>Example runs\<close>

text \<open>
  The application after \<open>__init__\<close>, with no configuration file and no local model
  folder, and FFmpeg installed (lines 117 to 141 and 163 to 301).
\<close>

definition new_app :: app where
  "new_app =
     \<lparr>filename = None, txt_var = True, srt_var = True, using_cpu = True,
      config = Map.empty, model_cache = Map.empty, requests_session = None,
      message_queue = [], result_frame_initialized = False,
      transcribe_btn = DISABLED, file_btn = NORMAL,
      model_size_state = NORMAL, model_size_value = ascii ''base'',
      accelerate_btn = NORMAL, accelerate_btn_face = Accelerate_face,
      browse_btn = NORMAL, language_state = NORMAL, language_value = ascii ''auto'',
      model_path = [], progress_var = 0, progress_label = Ready_label,
      status_var = Ready, result_text = [], dialogs = [],
      logged = [(INFO, 396), (INFO, 138)], threads_started = 0,
      files = Map.empty, config_file = None, load_calls = [], polls_scheduled = 1\<rparr>"

text \<open>After the user has picked the file \<open>C:/media/talk.mp3\<close> (lines 315 to 320).\<close>

definition picked_app :: app where
  "picked_app =
     new_app\<lparr>filename := Some (ascii ''C:/media/talk.mp3''), transcribe_btn := NORMAL,
       status_var := File_selected (ascii ''talk.mp3''),
       logged := logged new_app @ [(INFO, 320)]\<rparr>"

definition example_segments :: "segment list" where
  "example_segments =
     [\<lparr>seg_start = 0, seg_end = 3 / 2, seg_text = ascii '' Hello there.''\<rparr>,
      \<lparr>seg_start = 3 / 2, seg_end = 37254 / 10, seg_text = ascii '' Good bye.''\<rparr>]"

definition example_info :: transcription_info where
  "example_info = \<lparr>language = ascii ''en'', language_probability = 99 / 100,
                     duration = 37254 / 10\<rparr>"

text \<open>
  A Windows machine on which everything succeeds, with an inference library that has no
  progress callback and finds the two example segments.
\<close>

definition example_env :: env where
  "example_env =
     \<lparr>sep = 92, seps = [92, 47], app_dir = ascii ''C:/app'',
      path_exists = (\<lambda>p. True), base_name = (\<lambda>p. ascii ''talk''),
      load_model = (\<lambda>n source dev. None), certifi_available = True,
      progress_callback_support = (\<lambda>m. Some False),
      transcribe = (\<lambda>m name lang. Transcribed [] example_segments example_info),
      makedirs_error = (\<lambda>p. None), open_error = (\<lambda>p. None),
      config_writable = True\<rparr>"

text \<open>The same machine with a CUDA driver that is too old: every load on the GPU fails.\<close>

definition old_driver_env :: env where
  "old_driver_env =
     example_env\<lparr>load_model := (\<lambda>n source dev.
        if dev = Cuda
        then Some (RuntimeError (ascii ''CUDA driver version is insufficient for CUDA runtime version''))
        else None)\<rparr>"

text \<open>A machine without the model files: every load fails for another reason.\<close>

definition no_model_env :: env where
  "no_model_env =
     example_env\<lparr>load_model := (\<lambda>n source dev. Some (RuntimeError (ascii ''Unable to open file model.bin'')))\<rparr>"

text \<open>The user has switched to GPU mode before picking the file.\<close>

definition gpu_app :: app where
  "gpu_app = (toggle_acceleration example_env picked_app)\<lparr>model_path := ascii ''C:/app/models/base''\<rparr>"

text \<open>A machine on which the models folder exists and its \<open>base\<close> subfolder does not.\<close>

definition models_only_env :: env where
  "models_only_env = example_env\<lparr>path_exists := (\<lambda>p. p = ascii ''C:/app/models'')\<rparr>"

section \<open>Results\<close>

subsection \<open>Subtitle time stamps\<close>

text \<open>
  C1:\<open>format_srt_time(3725.4)\<close> is \<open>01:02:05,000\<close>: the millisecond field is computed
  from the integer second count and not from the duration, so it is \<open>000\<close> and not
  \<open>400\<close>.
\<close>

theorem format_srt_time_3725_4:
  "format_srt_time (37254 / 10) = ''01:02:05,000'' \<and>
   format_srt_time (37254 / 10) \<noteq> ''01:02:05,400''"
  by code_simp

subsection \<open>Starting a run\<close>

text \<open>
  C4: when no file is selected, or both output formats are switched off,
  \<open>start_transcription\<close> shows a warning dialog and writes a warning to the log, and
  changes nothing else: no worker thread is started and no control is disabled.
\<close>

theorem start_transcription_blocked:
  assumes "filename s = None \<or> (\<not> txt_var s \<and> \<not> srt_var s)"
  shows "(\<exists>text line. start_transcription s =
            s\<lparr>dialogs := dialogs s @ [(Showwarning, text)],
              logged := logged s @ [(WARNING, line)]\<rparr>) \<and>
         threads_started (start_transcription s) = threads_started s \<and>
         controls (start_transcription s) = controls s"
proof (cases "filename s = None")
  case True
  then have "start_transcription s =
      s\<lparr>dialogs := dialogs s @ [(Showwarning, Please_select_file)],
        logged := logged s @ [(WARNING, 450)]\<rparr>"
    by (simp add: start_transcription_def logger_def messagebox_def)
  then show ?thesis by (auto simp: controls_def)
next
  case False
  with assms have "start_transcription s =
      s\<lparr>dialogs := dialogs s @ [(Showwarning, Please_select_format)],
        logged := logged s @ [(WARNING, 456)]\<rparr>"
    by (simp add: start_transcription_def logger_def messagebox_def)
  then show ?thesis by (auto simp: controls_def)
qed

theorem start_transcription_blocked_witness:
  "threads_started (start_transcription new_app) = 0 \<and>
   controls (start_transcription new_app) = controls new_app \<and>
   threads_started (start_transcription (picked_app\<lparr>txt_var := False, srt_var := False\<rparr>)) = 0 \<and>
   threads_started (start_transcription picked_app) = 1 \<and>
   controls (start_transcription picked_app) = [DISABLED, DISABLED, DISABLED, DISABLED, DISABLED, DISABLED]"
proof -
  have a: "filename new_app = None \<or> (\<not> txt_var new_app \<and> \<not> srt_var new_app)"
    by (simp add: new_app_def)
  let ?off = "picked_app\<lparr>txt_var := False, srt_var := False\<rparr>"
  have b: "filename ?off = None \<or> (\<not> txt_var ?off \<and> \<not> srt_var ?off)"
    by simp
  have c: "threads_started (start_transcription picked_app) = 1 \<and>
           controls (start_transcription picked_app) = [DISABLED, DISABLED, DISABLED, DISABLED, DISABLED, DISABLED]"
    by (simp add: start_transcription_def picked_app_def new_app_def logger_def
        create_result_frame_def controls_def)
  from start_transcription_blocked [OF a] start_transcription_blocked [OF b] c
  show ?thesis by (simp add: new_app_def picked_app_def)
qed

subsection \<open>Choosing the model directory\<close>

lemma str_endswith_nonempty: "str_endswith s suffix \<Longrightarrow> suffix \<noteq> [] \<Longrightarrow> s \<noteq> []"
  by (auto simp: str_endswith_def)

text \<open>
  C10: when the chosen directory ends with \<open>models\<close> and its \<open>base\<close> subfolder exists,
  the model-path field and the configuration hold the chosen path joined with \<open>base\<close>,
  which is not the chosen path, and the configuration file holds it when it can be
  written. When the path (joined with \<open>base\<close> in that case) does not exist, the field,
  the configuration and its file stay as they are and the model-size selector is enabled.
\<close>

theorem select_model_dir_models:
  "(str_endswith dirname (ascii ''models'') \<and>
      path_exists e (path_join e dirname (ascii ''base'')) \<longrightarrow>
      model_path (select_model_dir e dirname s) = path_join e dirname (ascii ''base'') \<and>
      config (select_model_dir e dirname s) ''model.path'' =
        Some (path_join e dirname (ascii ''base'')) \<and>
      path_join e dirname (ascii ''base'') \<noteq> dirname \<and>
      (config_writable e \<longrightarrow>
         config_file (select_model_dir e dirname s) =
           Some (config (select_model_dir e dirname s)))) \<and>
   (\<not> path_exists e (if str_endswith dirname (ascii ''models'')
                        then path_join e dirname (ascii ''base'') else dirname) \<longrightarrow>
      model_path (select_model_dir e dirname s) = model_path s \<and>
      config (select_model_dir e dirname s) = config s \<and>
      config_file (select_model_dir e dirname s) = config_file s \<and>
      model_size_state (select_model_dir e dirname s) = NORMAL)"
proof -
  have ne: "path_join e dirname (ascii ''base'') \<noteq> dirname \<and>
            path_join e dirname (ascii ''base'') \<noteq> []"
    if "str_endswith dirname (ascii ''models'')"
  proof -
    from that have "dirname \<noteq> []"
      by (rule str_endswith_nonempty) (simp add: ascii_def)
    then show ?thesis
      by (simp add: path_join_def ascii_def)
  qed
  show ?thesis
    using ne
    by (auto simp: select_model_dir_def save_config_def logger_def messagebox_def Let_def)
qed

theorem select_model_dir_models_witness:
  "model_path (select_model_dir example_env (ascii ''C:/app/models'') new_app) =
     ascii ''C:/app/models'' @ [92] @ ascii ''base'' \<and>
   config_file (select_model_dir example_env (ascii ''C:/app/models'') new_app) =
     Some (config (select_model_dir example_env (ascii ''C:/app/models'') new_app)) \<and>
   model_path (select_model_dir models_only_env (ascii ''C:/app/models'') new_app) = [] \<and>
   model_size_state (select_model_dir models_only_env (ascii ''C:/app/models'') new_app) = NORMAL"
proof -
  have a: "str_endswith (ascii ''C:/app/models'') (ascii ''models'')"
    by (simp add: str_endswith_def ascii_def)
  have b: "path_exists example_env (path_join example_env (ascii ''C:/app/models'') (ascii ''base''))"
    by (simp add: example_env_def)
  have c: "config_writable example_env"
    by (simp add: example_env_def)
  have j: "path_join example_env (ascii ''C:/app/models'') (ascii ''base'') =
           ascii ''C:/app/models'' @ [92] @ ascii ''base''"
    by (simp add: path_join_def example_env_def ascii_def)
  have j2: "path_join models_only_env (ascii ''C:/app/models'') (ascii ''base'') =
           ascii ''C:/app/models'' @ [92] @ ascii ''base''"
    by (simp add: path_join_def models_only_env_def example_env_def ascii_def)
  have d: "\<not> path_exists models_only_env
             (if str_endswith (ascii ''C:/app/models'') (ascii ''models'')
              then path_join models_only_env (ascii ''C:/app/models'') (ascii ''base'')
              else ascii ''C:/app/models'')"
    by (simp only: a if_True j2) (simp add: models_only_env_def ascii_def)
  from select_model_dir_models [of "ascii ''C:/app/models''" example_env new_app] a b c
  have r1: "model_path (select_model_dir example_env (ascii ''C:/app/models'') new_app) =
              path_join example_env (ascii ''C:/app/models'') (ascii ''base'') \<and>
            config_file (select_model_dir example_env (ascii ''C:/app/models'') new_app) =
              Some (config (select_model_dir example_env (ascii ''C:/app/models'') new_app))"
    by blast
  from select_model_dir_models [of "ascii ''C:/app/models''" models_only_env new_app] d
  have r2: "model_path (select_model_dir models_only_env (ascii ''C:/app/models'') new_app) =
              model_path new_app \<and>
            model_size_state (select_model_dir models_only_env (ascii ''C:/app/models'') new_app) =
              NORMAL"
    by blast
  have m: "model_path new_app = []"
    by (simp add: new_app_def)
  from r1 r2 show ?thesis
    unfolding j m by blast
qed

subsection \<open>What the worker leaves to the user-interface thread\<close>

lemmas run_defs = run_transcription_def run_try_def load_phase_def announce_load_def
  resolve_model_def load_or_fallback_def WhisperModel_def ensure_session_def analyze_def
  results_without_callback_def results_with_callback_def show_header_def
  save_transcription_results_def save_body_def write_file_def cleanup_def
  send_message_def logger_def messagebox_def start_transcription_def create_result_frame_def
  stripped_path_def requested_device_def language_arg_def model_key_def device_name_def
  model_dir_def output_dir_def path_join_def str_strip_def ascii_def
  example_env_def picked_app_def new_app_def example_segments_def example_info_def
  update_progress_def is_IOError_def

lemma ui_state_send_message [simp]: "ui_state (send_message m s) = ui_state s"
  by (simp add: ui_state_def send_message_def)

lemma ui_state_logger [simp]: "ui_state (logger lv n s) = ui_state s"
  by (simp add: ui_state_def logger_def)

lemma ui_state_worker_fields [simp]:
  "ui_state (s\<lparr>load_calls := c\<rparr>) = ui_state s"
  "ui_state (s\<lparr>model_cache := mc\<rparr>) = ui_state s"
  "ui_state (s\<lparr>using_cpu := u\<rparr>) = ui_state s"
  "ui_state (s\<lparr>requests_session := r\<rparr>) = ui_state s"
  "ui_state (s\<lparr>files := f\<rparr>) = ui_state s"
  by (simp_all add: ui_state_def)

lemma ui_state_WhisperModel [simp]: "ui_state (snd (WhisperModel e source dev s)) = ui_state s"
  by (simp add: WhisperModel_def Let_def split: option.splits)

lemma ui_state_load_or_fallback [simp]:
  "ui_state (snd (load_or_fallback e source dev key cpu_key l1 l2 l3 s)) = ui_state s"
  by (simp add: load_or_fallback_def Let_def split_beta split: sum.splits exn.splits)

lemma ui_state_ensure_session [simp]: "ui_state (ensure_session e s) = ui_state s"
  by (simp add: ensure_session_def split: option.splits)

lemma ui_state_resolve_model [simp]:
  "ui_state (snd (resolve_model e model_size dev path s)) = ui_state s"
  by (simp add: resolve_model_def Let_def split_beta split: sum.splits option.splits)

lemma ui_state_announce_load [simp]: "ui_state (announce_load s) = ui_state s"
  by (simp add: announce_load_def Let_def)

lemma ui_state_load_phase [simp]: "ui_state (snd (load_phase e s)) = ui_state s"
  by (simp add: load_phase_def)

lemma ui_state_process_segments [simp]:
  "ui_state (process_segments n i segs s) = ui_state s"
  by (induction segs arbitrary: i s) (simp_all add: Let_def)

lemma ui_state_fold_update_progress [simp]:
  "ui_state (fold update_progress callbacks s) = ui_state s"
  by (induction callbacks arbitrary: s) (simp_all add: update_progress_def)

lemma ui_state_show_header [simp]: "ui_state (show_header info l1 l2 s) = ui_state s"
  by (simp add: show_header_def Let_def)

lemma ui_state_write_file [simp]: "ui_state (snd (write_file e path content s)) = ui_state s"
  by (simp add: write_file_def split: option.splits)

lemma ui_state_save_body [simp]:
  "ui_state (snd (save_body e info segs dir s)) = ui_state s"
  by (simp add: save_body_def Let_def split_beta split: option.splits)

lemma ui_state_save_transcription_results [simp]:
  "ui_state (snd (save_transcription_results e info segs dir s)) = ui_state s"
  by (simp add: save_transcription_results_def Let_def split_beta split: option.splits)

lemma ui_state_results_without_callback [simp]:
  "ui_state (snd (results_without_callback e info segs s)) = ui_state s"
  by (simp add: results_without_callback_def Let_def split: option.splits)

lemma ui_state_results_with_callback [simp]:
  "ui_state (snd (results_with_callback e info segs s)) = ui_state s"
  by (simp add: results_with_callback_def Let_def split_beta split: option.splits)

lemma ui_state_analyze [simp]: "ui_state (snd (analyze e m lang s)) = ui_state s"
  by (simp add: analyze_def Let_def split_beta split: option.splits transcribe_result.splits)

lemma ui_state_run_try [simp]: "ui_state (snd (run_try e s)) = ui_state s"
  by (simp add: run_try_def split_beta split: sum.splits)

lemma ui_state_cleanup [simp]: "ui_state (cleanup s) = enable_controls (ui_state s)"
  by (simp add: cleanup_def Let_def ui_state_def enable_controls_def logger_def split: option.splits)

lemma controls_ui_state: "controls (ui_state s) = controls s"
  by (simp add: controls_def ui_state_def)

text \<open>
  C8, as stated, fails: the worker changes the state of the user interface itself. After
  \<open>start_transcription\<close> the six controls are disabled; when \<open>run_transcription\<close> has
  run they are enabled, with the queue not yet drained.
\<close>

theorem worker_enables_controls:
  "controls (start_transcription picked_app) = [DISABLED, DISABLED, DISABLED, DISABLED, DISABLED, DISABLED] \<and>
   controls (snd (run_transcription example_env (start_transcription picked_app))) =
     [NORMAL, NORMAL, NORMAL, NORMAL, NORMAL, NORMAL] \<and>
   message_queue (snd (run_transcription example_env (start_transcription picked_app))) \<noteq> [] \<and>
   ui_state (snd (run_transcription example_env (start_transcription picked_app))) \<noteq>
     ui_state (start_transcription picked_app)"
proof -
  let ?before = "start_transcription picked_app"
  let ?after = "snd (run_transcription example_env ?before)"
  have b: "controls ?before = [DISABLED, DISABLED, DISABLED, DISABLED, DISABLED, DISABLED]"
    by (simp add: run_defs controls_def)
  have a: "controls ?after = [NORMAL, NORMAL, NORMAL, NORMAL, NORMAL, NORMAL] \<and> message_queue ?after \<noteq> []"
    by (simp add: run_defs controls_def Let_def)
  have "ui_state ?after \<noteq> ui_state ?before"
  proof
    assume "ui_state ?after = ui_state ?before"
    then have "controls (ui_state ?after) = controls (ui_state ?before)"
      by simp
    then have "controls ?after = controls ?before"
      by (simp only: controls_ui_state)
    with a b show False
      by simp
  qed
  with a b show ?thesis by simp
qed

text \<open>
  C8, amended: the worker leaves the state of the user interface as it is (status,
  progress bar, dialogs and result panel included: those change only when
  \<open>process_messages\<close> applies the queue), except that the cleanup at the end of the run
  sets the state of the six run controls to enabled from the worker thread itself.
\<close>

theorem worker_frame:
  "ui_state (snd (run_transcription e s)) = enable_controls (ui_state s)"
  by (simp add: run_transcription_def Let_def split_beta split: option.splits)

theorem worker_frame_witness:
  "ui_state (snd (run_transcription example_env (start_transcription picked_app))) =
   enable_controls (ui_state (start_transcription picked_app))"
  using worker_frame [of example_env "start_transcription picked_app"] by simp

subsection \<open>The cleanup\<close>

text \<open>
  C2: after a successful run on the example machine the model cache still holds the
  model that the run loaded: the cleanup does not remove the entries of the cache.
\<close>

theorem cache_kept_after_run:
  "fst (run_transcription example_env (start_transcription picked_app)) = None \<and>
   model_cache (snd (run_transcription example_env (start_transcription picked_app)))
     (ascii ''base_cpu_'') = Some (Model (ascii ''base'') Cpu)"
  by (simp add: run_defs Let_def)

end
